theory Spec2Isabelle
  imports Complex_Main
begin

section \<open>Python values used by the replay server\<close>

text \<open>
  A Python \<open>str\<close> is a sequence of Unicode code points; it is modelled as a list of
  natural numbers. Literals of the source are written \<open>str ''...''\<close>; characters that
  cannot be written inside an Isabelle literal (the backslash) are given by number.
  Python's \<open>int\<close> and \<open>float\<close> values of the pacing arithmetic are modelled as
  reals: rounding of binary floating point is not part of the model.
\<close>

type_synonym pystr = "nat list"

definition str :: "string \<Rightarrow> pystr" where
  "str s = map of_char s"

text \<open>Python's \<open>a in b\<close> on two strings: \<open>a\<close> occurs in \<open>b\<close> as a contiguous run.\<close>

fun startswith :: "pystr \<Rightarrow> pystr \<Rightarrow> bool" where
  "startswith s [] = True"
| "startswith [] (p # ps) = False"
| "startswith (c # cs) (p # ps) = (c = p \<and> startswith cs ps)"

fun str_in :: "pystr \<Rightarrow> pystr \<Rightarrow> bool" where
  "str_in a [] = (a = [])"
| "str_in a (c # cs) = (startswith (c # cs) a \<or> str_in a cs)"

text \<open>
  The exceptions the modelled code can raise. \<open>QueryFailed\<close> stands for the exception
  with which \<open>cursor.execute\<close> fails: \<open>UnicodeEncodeError\<close> for a parameter that cannot
  be bound, \<open>sqlite3.OperationalError\<close> for a pattern that is refused. Which of the two
  classes is reported can depend on earlier statements of the connection, so the model
  has one value for both.
\<close>

datatype py_error =
    HTTPException nat pystr
  | IndexError
  | ZeroDivisionError
  | ValueError
  | UnicodeEncodeError
  | QueryFailed

text \<open>
  The code points \<open>U+D800\<close> to \<open>U+DFFF\<close>. A Python string can hold one on its own (a
  lone surrogate, for instance from the JSON escape \<open>\ud800\<close>); UTF-8 cannot encode it.
\<close>

definition is_surrogate :: "nat \<Rightarrow> bool" where
  "is_surrogate c = (55296 \<le> c \<and> c \<le> 57343)"

text \<open>The number of bytes of the UTF-8 encoding of a string without lone surrogates.\<close>

definition utf8_char_length :: "nat \<Rightarrow> nat" where
  "utf8_char_length c = (if c < 128 then 1 else if c < 2048 then 2 else if c < 65536 then 3 else 4)"

definition utf8_length :: "pystr \<Rightarrow> nat" where
  "utf8_length s = sum_list (map utf8_char_length s)"

section \<open>\<open>json.dumps\<close> with its default arguments\<close>

text \<open>
  \<open>_format_sse_message\<close> serialises a dictionary with \<open>json.dumps(data)\<close>. The
  defaults of \<open>json.dumps\<close> are \<open>ensure_ascii=True\<close> and the separators
  \<open>', '\<close> between items and \<open>': '\<close> between a key and its value.
\<close>

datatype json =
    JString pystr
  | JArray "json list"
  | JObject "(pystr \<times> json) list"

definition hex_digit :: "nat \<Rightarrow> nat" where
  "hex_digit d = (if d < 10 then 48 + d else 87 + d)"

text \<open>\<open>'\\u{0:04x}'.format(n)\<close> for \<open>n < 0x10000\<close>: backslash, \<open>u\<close>, four hex digits.\<close>

definition u_escape :: "nat \<Rightarrow> pystr" where
  "u_escape n =
     [92, 117, hex_digit (n div 4096 mod 16), hex_digit (n div 256 mod 16),
      hex_digit (n div 16 mod 16), hex_digit (n mod 16)]"

text \<open>
  The replacement function of \<open>json.encoder.py_encode_basestring_ascii\<close>: the
  regular expression \<open>([\\"]|[^\ -~])\<close> selects the backslash, the double quote and
  every code point outside \<open>0x20..0x7e\<close>; \<open>ESCAPE_DCT\<close> gives the short escapes;
  everything else becomes \<open>\uXXXX\<close>, as a surrogate pair above \<open>0xffff\<close>.
\<close>

definition escape_char :: "nat \<Rightarrow> pystr" where
  "escape_char c =
     (if c = 92 then [92, 92]
      else if c = 34 then [92, 34]
      else if 32 \<le> c \<and> c \<le> 126 then [c]
      else if c = 8 then [92, 98]
      else if c = 12 then [92, 102]
      else if c = 10 then [92, 110]
      else if c = 13 then [92, 114]
      else if c = 9 then [92, 116]
      else if c < 65536 then u_escape c
      else (let n = c - 65536
            in u_escape (55296 + n div 1024 mod 1024) @ u_escape (56320 + n mod 1024)))"

definition encode_basestring_ascii :: "pystr \<Rightarrow> pystr" where
  "encode_basestring_ascii s = [34] @ concat (map escape_char s) @ [34]"

fun join :: "pystr \<Rightarrow> pystr list \<Rightarrow> pystr" where
  "join sep [] = []"
| "join sep [x] = x"
| "join sep (x # y # ys) = x @ sep @ join sep (y # ys)"

fun json_dumps :: "json \<Rightarrow> pystr" where
  "json_dumps (JString s) = encode_basestring_ascii s"
| "json_dumps (JArray xs) = str ''['' @ join (str '', '') (map json_dumps xs) @ str '']''"
| "json_dumps (JObject kvs) =
     str ''{'' @
     join (str '', '')
       (map (\<lambda>kv. encode_basestring_ascii (fst kv) @ str '': '' @ json_dumps (snd kv)) kvs) @
     str ''}''"

section \<open>The stream framer\<close>

text \<open>
  \<open>_format_sse_message(content)\<close>, \<open>server.py\<close> lines 238 to 257: the dictionary
  \<open>{'choices': [{'delta': {'content': content}}]}\<close> is serialised and wrapped as
  \<open>f"data: {json.dumps(data)}\n\n"\<close>.
\<close>

definition sse_data :: "pystr \<Rightarrow> json" where
  "sse_data content =
     JObject [(str ''choices'',
       JArray [JObject [(str ''delta'', JObject [(str ''content'', JString content)])]])]"

definition format_sse_message :: "pystr \<Rightarrow> pystr" where
  "format_sse_message content = str ''data: '' @ json_dumps (sse_data content) @ [10, 10]"

section \<open>The tokenizer\<close>

text \<open>
  \<open>ENCODER = tiktoken.get_encoding("cl100k_base")\<close> is a library object; the server uses
  three of its operations, which are parameters of the model:
  \<^item> \<open>ENCODER.encode(text)\<close>, which raises \<open>ValueError\<close> when the text contains the
    text of a special token such as \<open><|endoftext|>\<close> (\<open>None\<close>);
  \<^item> \<open>ENCODER.decode(tokens, "strict")\<close>, which raises \<open>UnicodeDecodeError\<close> when the
    bytes of the tokens are not complete UTF-8 (\<open>None\<close>);
  \<^item> \<open>ENCODER.decode(tokens)\<close> with the default error handling, \<open>None\<close> when it
    raises any exception.
\<close>

record 'tok tokenizer =
  encode :: "pystr \<Rightarrow> 'tok list option"
  decode_strict :: "'tok list \<Rightarrow> pystr option"
  decode_replace :: "'tok list \<Rightarrow> pystr option"

section \<open>Configuration\<close>

definition MODEL_OUTPUT_SPEEDS :: "(pystr \<times> real) list" where
  "MODEL_OUTPUT_SPEEDS =
     [(str ''slow'', 15),
      (str ''o1'', 40),
      (str ''deepseek-chat'', 38),
      (str ''gpt-4o'', 86),
      (str ''o3-mini'', 105),
      (str ''deepseek-ai/DeepSeek-R1'', 38),
      (str ''TA/deepseek-ai/DeepSeek-R1'', 76),
      (str ''claude-3-5-sonnet'', 55),
      (str ''claude-3-7-sonnet-20250219'', 55),
      (str ''gemini-2.0-flash-thinking-exp-01-21'', 200),
      (str ''gemini-2.0-flash-001'', 170),
      (str ''gpt-4.5-preview'', 14),
      (str ''claude-3-opus'', 30),
      (str ''ark-deepseek-r1-250120'', 28.5)]"

definition DEFAULT_OUTPUT_SPEED :: real where
  "DEFAULT_OUTPUT_SPEED = 40"

text \<open>
  Lines 134 to 136: \<open>MODEL_OUTPUT_SPEEDS.get(model_name, DEFAULT_OUTPUT_SPEED)\<close>, replaced
  by \<open>MODEL_OUTPUT_SPEEDS["slow"]\<close> when \<open>"slow" in model_name\<close>. The key
  \<open>"slow"\<close> is in the dictionary, so the subscript does not raise.
\<close>

definition get_output_speed :: "pystr \<Rightarrow> real" where
  "get_output_speed model_name =
     (let output_speed = (case map_of MODEL_OUTPUT_SPEEDS model_name of
                            Some v \<Rightarrow> v
                          | None \<Rightarrow> DEFAULT_OUTPUT_SPEED)
      in if str_in (str ''slow'') model_name
         then the (map_of MODEL_OUTPUT_SPEEDS (str ''slow''))
         else output_speed)"

section \<open>The streaming generator\<close>

text \<open>
  What the generator does to the outside world, in order: \<open>time.sleep(d)\<close>, the
  blocking sleep of the standard library, is \<open>Sleep d\<close>; \<open>yield m\<close> is \<open>Yield m\<close>;
  a \<open>print\<close> of debug mode is \<open>Print\<close> with the values it formats.
\<close>

datatype log =
    LogStarting pystr
  | LogTargetSpeed real
  | LogEstimatedTotal nat
  | LogAhead real real
  | LogBehind real
  | LogFinalDecodeError
  | LogProgress nat nat real real real
  | LogComplete
  | LogTotalTokens nat
  | LogTotalTime real
  | LogAverageSpeed real

datatype event =
    Sleep real
  | Yield pystr
  | Print log

fun yielded :: "event list \<Rightarrow> pystr list" where
  "yielded [] = []"
| "yielded (Yield m # es) = m # yielded es"
| "yielded (e # es) = yielded es"

fun slept :: "event list \<Rightarrow> real list" where
  "slept [] = []"
| "slept (Sleep d # es) = d # slept es"
| "slept (e # es) = slept es"

text \<open>
  The local variables of the generator that change while it runs. \<open>clock_reads\<close>
  counts the calls of \<open>time.time()\<close> made so far: the environment is a function
  \<open>clock\<close> whose value at \<open>k\<close> is what call number \<open>k\<close> returns. \<open>elapsed_time\<close> and
  \<open>expected_tokens\<close> are unbound in the source until the loop has run once; they are
  read after the loop only when \<open>total_tokens > 0\<close>, that is after at least one
  iteration.
\<close>

record 'tok plan =
  tokens_sent :: nat
  last_delay :: real
  token_buffer :: "'tok list"
  clock_reads :: nat
  elapsed_time :: real
  expected_tokens :: real

text \<open>Lines 155 to 181: the timing adjustment at the head of each iteration.\<close>

definition rate_control ::
  "(nat \<Rightarrow> real) \<Rightarrow> real \<Rightarrow> real \<Rightarrow> bool \<Rightarrow> real \<Rightarrow> 'tok plan \<Rightarrow> event list \<times> 'tok plan" where
  "rate_control clock start_time output_speed debug_mode smoothing_factor st =
     (let elapsed = clock (clock_reads st) - start_time;
          expected = elapsed * output_speed;
          st1 = st\<lparr>clock_reads := Suc (clock_reads st),
                   elapsed_time := elapsed, expected_tokens := expected\<rparr>
      in if real (tokens_sent st) > expected then
           (let tokens_ahead = real (tokens_sent st) - expected;
                raw_delay = tokens_ahead / output_speed;
                dynamic_delay = (smoothing_factor * last_delay st)
                                + ((1 - smoothing_factor) * raw_delay);
                actual_delay = max dynamic_delay 0
            in ([Sleep actual_delay] @
                (if debug_mode \<and> tokens_sent st mod 10 = 0
                 then [Print (LogAhead tokens_ahead actual_delay)] else []),
                st1\<lparr>last_delay := actual_delay\<rparr>))
         else if real (tokens_sent st) < expected - 2 then
           ((if debug_mode \<and> tokens_sent st mod 10 = 0
             then [Print (LogBehind (expected - real (tokens_sent st)))] else []),
            st1)
         else ([], st1))"

text \<open>
  Lines 184 to 198: the next token is appended to the buffer and the buffer is decoded
  strictly; on success the chunk is yielded, counted and the buffer reset, on
  \<open>UnicodeDecodeError\<close> the loop continues with the longer buffer. The caller
  increments \<open>i\<close>. The test \<open>if i < len(tokens)\<close> of line 184 repeats the loop
  condition with nothing changed in between, so it holds whenever it is reached.
\<close>

definition next_token ::
  "'tok tokenizer \<Rightarrow> 'tok list \<Rightarrow> nat \<Rightarrow> 'tok plan \<Rightarrow> event list \<times> 'tok plan" where
  "next_token enc tokens i st =
     (let token_id = tokens ! i;
          buf = token_buffer st @ [token_id]
      in case decode_strict enc buf of
           Some chunk_text \<Rightarrow>
             ([Yield (format_sse_message chunk_text)],
              st\<lparr>tokens_sent := tokens_sent st + length buf, token_buffer := []\<rparr>)
         | None \<Rightarrow> ([], st\<lparr>token_buffer := buf\<rparr>))"

definition loop_body ::
  "'tok tokenizer \<Rightarrow> (nat \<Rightarrow> real) \<Rightarrow> real \<Rightarrow> real \<Rightarrow> bool \<Rightarrow> real \<Rightarrow> 'tok list \<Rightarrow> nat \<Rightarrow>
   'tok plan \<Rightarrow> event list \<times> 'tok plan" where
  "loop_body enc clock start_time output_speed debug_mode smoothing_factor tokens i st =
     (let (ev1, st1) = rate_control clock start_time output_speed debug_mode smoothing_factor st;
          (ev2, st2) = next_token enc tokens i st1
      in (ev1 @ ev2, st2))"

text \<open>
  The loop \<open>while i < len(tokens)\<close>, lines 154 to 198. The result lists, for each
  iteration in order, the events of the iteration and the plan after it.
\<close>

function while_loop ::
  "'tok tokenizer \<Rightarrow> (nat \<Rightarrow> real) \<Rightarrow> real \<Rightarrow> real \<Rightarrow> bool \<Rightarrow> real \<Rightarrow> 'tok list \<Rightarrow> nat \<Rightarrow>
   'tok plan \<Rightarrow> (event list \<times> 'tok plan) list" where
  "while_loop enc clock start_time output_speed debug_mode smoothing_factor tokens i st =
     (if i < length tokens then
        (let r = loop_body enc clock start_time output_speed debug_mode smoothing_factor
                   tokens i st
         in r # while_loop enc clock start_time output_speed debug_mode smoothing_factor
                  tokens (Suc i) (snd r))
      else [])"
  by pat_completeness auto
termination
  by (relation "measure (\<lambda>(enc, clock, start_time, output_speed, debug_mode, smoothing_factor,
                            tokens, i, st). length tokens - i)") auto

declare while_loop.simps [simp del]

text \<open>Lines 201 to 209: whatever is left in the buffer is decoded leniently.\<close>

definition final_flush :: "'tok tokenizer \<Rightarrow> bool \<Rightarrow> 'tok plan \<Rightarrow> event list \<times> 'tok plan" where
  "final_flush enc debug_mode st =
     (if token_buffer st \<noteq> [] then
        (case decode_replace enc (token_buffer st) of
           Some final_chunk \<Rightarrow>
             ([Yield (format_sse_message final_chunk)],
              st\<lparr>tokens_sent := tokens_sent st + length (token_buffer st)\<rparr>)
         | None \<Rightarrow> ((if debug_mode then [Print LogFinalDecodeError] else []), st))
      else ([], st))"

text \<open>
  Lines 211 to 222, the logging after the loop. The two divisions raise
  \<open>ZeroDivisionError\<close> on a zero divisor; the prints before the failing one have
  happened by then.
\<close>

definition final_log ::
  "(nat \<Rightarrow> real) \<Rightarrow> real \<Rightarrow> bool \<Rightarrow> nat \<Rightarrow> 'tok plan \<Rightarrow> event list \<times> py_error option" where
  "final_log clock start_time debug_mode total_tokens st =
     (if debug_mode \<and> tokens_sent st mod 20 = 0 \<and> total_tokens = 0 then
        ([], Some ZeroDivisionError)
      else
        (let progress =
               (if debug_mode \<and> tokens_sent st mod 20 = 0
                then [Print (LogProgress (tokens_sent st) total_tokens
                        (real (tokens_sent st) / real total_tokens * 100)
                        (elapsed_time st) (expected_tokens st))]
                else [])
         in if debug_mode then
              (let final_time = clock (clock_reads st) - start_time;
                   stats = [Print LogComplete, Print (LogTotalTokens (tokens_sent st)),
                            Print (LogTotalTime final_time)]
               in if final_time = 0 then (progress @ stats, Some ZeroDivisionError)
                  else (progress @ stats @
                          [Print (LogAverageSpeed (real (tokens_sent st) / final_time))],
                        None))
            else (progress, None)))"

definition initial_plan :: "'tok plan" where
  "initial_plan =
     \<lparr>tokens_sent = 0, last_delay = 0, token_buffer = [], clock_reads = 1,
      elapsed_time = 0, expected_tokens = 0\<rparr>"

definition loop_steps ::
  "'tok tokenizer \<Rightarrow> (nat \<Rightarrow> real) \<Rightarrow> 'tok list \<Rightarrow> pystr \<Rightarrow> bool \<Rightarrow> real \<Rightarrow>
   (event list \<times> 'tok plan) list" where
  "loop_steps enc clock tokens model_name debug_mode smoothing_factor =
     while_loop enc clock (clock 0) (get_output_speed model_name) debug_mode smoothing_factor
       tokens 0 initial_plan"

text \<open>
  The values the plan takes while the tokens of a response are streamed: at the start,
  after each iteration of the loop, and after the final flush. \<open>tokens\<close> is what
  \<open>ENCODER.encode(response_text)\<close> returned, \<open>total_tokens\<close> its length.
\<close>

definition plan_states ::
  "'tok tokenizer \<Rightarrow> (nat \<Rightarrow> real) \<Rightarrow> 'tok list \<Rightarrow> pystr \<Rightarrow> bool \<Rightarrow> real \<Rightarrow> 'tok plan list" where
  "plan_states enc clock tokens model_name debug_mode smoothing_factor =
     (let after_loop = initial_plan #
            map snd (loop_steps enc clock tokens model_name debug_mode smoothing_factor)
      in after_loop @ [snd (final_flush enc debug_mode (last after_loop))])"

text \<open>
  \<open>_generate_streaming_response\<close>, lines 115 to 222: the events of a complete
  iteration of the generator, and the exception that ends it, if any.

  An exception of \<open>ENCODER.encode\<close> at line 141 ends the generator before anything is
  printed or yielded. The \<open>print\<close> of line 146 writes the model name of the request;
  \<open>stdout_encodes\<close> says which strings the encoding of the console can take; for
  a string it cannot take, \<open>print\<close> raises \<open>UnicodeEncodeError\<close> and writes
  nothing. The other prints write ASCII text and numbers.
\<close>

definition generate_streaming_response ::
  "'tok tokenizer \<Rightarrow> (nat \<Rightarrow> real) \<Rightarrow> (pystr \<Rightarrow> bool) \<Rightarrow> pystr \<Rightarrow> pystr \<Rightarrow> bool \<Rightarrow> real \<Rightarrow>
   event list \<times> py_error option" where
  "generate_streaming_response enc clock stdout_encodes response_text model_name debug_mode
     smoothing_factor =
     (let output_speed = get_output_speed model_name;
          start_time = clock 0
      in case encode enc response_text of
           None \<Rightarrow> ([], Some ValueError)
         | Some tokens \<Rightarrow>
             if debug_mode \<and> \<not> stdout_encodes model_name then ([], Some UnicodeEncodeError)
             else
               (let total_tokens = length tokens;
                    intro = (if debug_mode
                             then [Print (LogStarting model_name),
                                   Print (LogTargetSpeed output_speed),
                                   Print (LogEstimatedTotal total_tokens)]
                             else []);
                    steps = loop_steps enc clock tokens model_name debug_mode smoothing_factor;
                    st = last (initial_plan # map snd steps);
                    (flush_events, st') = final_flush enc debug_mode st;
                    (log_events, err) = final_log clock start_time debug_mode total_tokens st'
                in (intro @ concat (map fst steps) @ flush_events @ log_events, err)))"

section \<open>The conversation store\<close>

text \<open>
  A row of the result of \<open>conversations c LEFT JOIN token_usage t\<close>, with the columns
  the server reads. Rows are written by \<open>save_conversation\<close> with a text in every one
  of the three columns. The store is given as the list of these rows in the order in
  which \<open>ORDER BY c.timestamp DESC\<close> enumerates them.
\<close>

record conversation =
  row_model_name :: pystr
  row_prompt :: pystr
  row_response :: pystr

text \<open>
  The operator \<open>LIKE\<close> of SQLite. Its matcher \<open>patternCompare\<close> is \<open>like_match\<close>:
  \<open>%\<close> (37) matches any run of characters, \<open>_\<close> (95) any one character, and any
  other character matches itself, the ASCII letters without regard to case. The
  matcher reads the pattern and the text as zero-terminated strings, so both end at
  their first \<open>U+0000\<close>: \<open>sql_like pattern text\<close> is \<open>text LIKE pattern\<close>.
\<close>

definition sql_lower :: "nat \<Rightarrow> nat" where
  "sql_lower c = (if 65 \<le> c \<and> c \<le> 90 then c + 32 else c)"

fun like_match :: "pystr \<Rightarrow> pystr \<Rightarrow> bool" where
  "like_match [] s = (s = [])"
| "like_match (p # ps) [] = (p = 37 \<and> like_match ps [])"
| "like_match (p # ps) (c # cs) =
     (if p = 37 then like_match ps (c # cs) \<or> like_match (p # ps) cs
      else (p = 95 \<or> sql_lower p = sql_lower c) \<and> like_match ps cs)"

definition until_nul :: "pystr \<Rightarrow> pystr" where
  "until_nul s = takeWhile (\<lambda>c. c \<noteq> 0) s"

definition sql_like :: "pystr \<Rightarrow> pystr \<Rightarrow> bool" where
  "sql_like pattern text = like_match (until_nul pattern) (until_nul text)"

text \<open>
  When \<open>cursor.execute\<close> fails for the search: binding a parameter with a lone
  surrogate fails; and \<open>LIKE\<close> refuses a pattern of more than 50000 bytes
  (\<open>SQLITE_MAX_LIKE_PATTERN_LENGTH\<close>) for the first row it is evaluated on, so with
  any row in the store.
\<close>

definition execute_fails :: "conversation list \<Rightarrow> pystr \<Rightarrow> bool" where
  "execute_fails db search_param =
     (list_ex is_surrogate search_param \<or> (db \<noteq> [] \<and> 50000 < utf8_length search_param))"

text \<open>
  \<open>ConversationDB.search_conversations(query)\<close> with \<open>limit=100\<close> and \<open>offset=0\<close>,
  \<open>database.py\<close> lines 200 to 244: the rows with
  \<open>c.prompt LIKE ? OR c.response LIKE ?\<close> for the parameter \<open>f"%{query}%"\<close>,
  most recent first, at most 100 of them.
\<close>

definition search_conversations ::
  "conversation list \<Rightarrow> pystr \<Rightarrow> py_error + conversation list" where
  "search_conversations db query =
     (let search_param = str ''%'' @ query @ str ''%''
      in if execute_fails db search_param then Inl QueryFailed
         else Inr (take 100
                (filter (\<lambda>c. sql_like search_param (row_prompt c)
                             \<or> sql_like search_param (row_response c)) db)))"

section \<open>The response locator\<close>

text \<open>
  \<open>_find_matching_response(prompt, model_name)\<close>, \<open>server.py\<close> lines 83 to 112. An
  exception of the search propagates.
\<close>

definition find_matching_response :: "conversation list \<Rightarrow> pystr \<Rightarrow> pystr \<Rightarrow> py_error + pystr" where
  "find_matching_response db prompt model_name =
     (case search_conversations db prompt of
        Inl e \<Rightarrow> Inl e
      | Inr conversations \<Rightarrow>
          (let matching_conversations =
                 filter (\<lambda>conv. str_in (row_model_name conv) model_name) conversations
           in case matching_conversations of
                [] \<Rightarrow> Inl (HTTPException 404 (str ''Model and prompt not found in database''))
              | conv # rest \<Rightarrow> Inr (row_response conv)))"




section \<open>The session endpoint\<close>

text \<open>
  The JSON body of a request, as far as \<open>chat_completions\<close> reads it: the list
  \<open>messages\<close>, the string \<open>model\<close> and the optional keys \<open>debug_mode\<close> and
  \<open>smoothing_factor\<close>, absent when \<open>None\<close>.
\<close>

record message =
  msg_role :: pystr
  msg_content :: pystr

record request =
  req_messages :: "message list"
  req_model :: pystr
  req_debug_mode :: "bool option"
  req_smoothing_factor :: "real option"

text \<open>
  \<open>StreamingResponse(generator, media_type=...)\<close>: the body is what iterating the
  generator to its end does.
\<close>

record streaming_response =
  body_iterator :: "event list \<times> py_error option"
  media_type :: pystr

text \<open>
  \<open>chat_completions\<close>, lines 45 to 80. \<open>data['messages'][0]\<close> raises
  \<open>IndexError\<close> on an empty list; the exception of the locator propagates.
\<close>

definition chat_completions ::
  "conversation list \<Rightarrow> 'tok tokenizer \<Rightarrow> (nat \<Rightarrow> real) \<Rightarrow> (pystr \<Rightarrow> bool) \<Rightarrow> request \<Rightarrow>
   py_error + streaming_response" where
  "chat_completions db enc clock stdout_encodes data =
     (case req_messages data of
        [] \<Rightarrow> Inl IndexError
      | m # ms \<Rightarrow>
          (let prompt = msg_content m;
               model_name = req_model data;
               debug_mode = (case req_debug_mode data of None \<Rightarrow> False | Some b \<Rightarrow> b);
               smoothing_factor = (case req_smoothing_factor data of None \<Rightarrow> 0.7 | Some f \<Rightarrow> f)
           in case find_matching_response db prompt model_name of
                Inl e \<Rightarrow> Inl e
              | Inr response_text \<Rightarrow>
                  Inr \<lparr>body_iterator =
                         generate_streaming_response enc clock stdout_encodes response_text
                           model_name debug_mode smoothing_factor,
                       media_type = str ''text/event-stream''\<rparr>))"

section \<open>The chunks of a token sequence\<close>

text \<open>
  The texts the loop yields depend on the tokens and the strict decoder alone:
  \<open>chunk_texts dec buf ts\<close> are the chunks produced from the tokens \<open>ts\<close> still to be
  read when the buffer holds \<open>buf\<close>, and \<open>leftover dec buf ts\<close> is the buffer at the
  end.
\<close>

fun chunk_texts :: "('tok list \<Rightarrow> pystr option) \<Rightarrow> 'tok list \<Rightarrow> 'tok list \<Rightarrow> pystr list" where
  "chunk_texts dec buf [] = []"
| "chunk_texts dec buf (t # ts) =
     (case dec (buf @ [t]) of
        Some c \<Rightarrow> c # chunk_texts dec [] ts
      | None \<Rightarrow> chunk_texts dec (buf @ [t]) ts)"

fun leftover :: "('tok list \<Rightarrow> pystr option) \<Rightarrow> 'tok list \<Rightarrow> 'tok list \<Rightarrow> 'tok list" where
  "leftover dec buf [] = buf"
| "leftover dec buf (t # ts) =
     (case dec (buf @ [t]) of
        Some c \<Rightarrow> leftover dec [] ts
      | None \<Rightarrow> leftover dec (buf @ [t]) ts)"

text \<open>
  The contract of a tokenizer whose tokens stand for bytes of UTF-8, as those of
  \<open>tiktoken\<close> do: a token sequence that decodes ends on a character boundary, so what
  follows it decodes on its own, and the text of the whole is the two texts joined.
\<close>

definition decodes_by_parts :: "'tok tokenizer \<Rightarrow> bool" where
  "decodes_by_parts enc =
     (\<forall>xs ys a. decode_strict enc xs = Some a \<longrightarrow>
        decode_strict enc (xs @ ys) = map_option ((@) a) (decode_strict enc ys))"

section \<open>A small tokenizer, clock and console for concrete runs\<close>

text \<open>
  One token per byte of the one-byte and two-byte forms of UTF-8: a code point below
  128 is one token, a code point from 128 to 2047 is a lead byte and a continuation
  byte. Decoding a buffer that ends after a lead byte fails. Encoding refuses a text
  that contains the text of a special token of \<open>cl100k_base\<close>, as
  \<open>tiktoken\<close>'s \<open>encode\<close> does with its default arguments.
\<close>

definition SPECIAL_TOKENS :: "pystr list" where
  "SPECIAL_TOKENS =
     [str ''<|endoftext|>'', str ''<|fim_prefix|>'', str ''<|fim_middle|>'',
      str ''<|fim_suffix|>'', str ''<|endofprompt|>'']"

fun utf8_encode :: "pystr \<Rightarrow> nat list" where
  "utf8_encode [] = []"
| "utf8_encode (c # cs) =
     (if c < 128 then [c] else [192 + c div 64, 128 + c mod 64]) @ utf8_encode cs"

fun utf8_decode :: "nat list \<Rightarrow> pystr option" where
  "utf8_decode [] = Some []"
| "utf8_decode [b] = (if b < 128 then Some [b] else None)"
| "utf8_decode (b # c # bs) =
     (if b < 128 then map_option ((#) b) (utf8_decode (c # bs))
      else if 194 \<le> b \<and> b < 224 \<and> 128 \<le> c \<and> c < 192
           then map_option ((#) ((b - 192) * 64 + (c - 128))) (utf8_decode bs)
      else None)"

definition byte_tokenizer :: "nat tokenizer" where
  "byte_tokenizer =
     \<lparr>encode = (\<lambda>text. if list_ex (\<lambda>special. str_in special text) SPECIAL_TOKENS
                       then None else Some (utf8_encode text)),
      decode_strict = utf8_decode,
      decode_replace = (\<lambda>bs. case utf8_decode bs of Some s \<Rightarrow> Some s | None \<Rightarrow> Some [65533])\<rparr>"

text \<open>A clock that advances by ten milliseconds between two readings.\<close>

definition tick_clock :: "nat \<Rightarrow> real" where
  "tick_clock k = real k / 100"

text \<open>A console whose encoding is UTF-8 with strict error handling.\<close>

definition utf8_stdout :: "pystr \<Rightarrow> bool" where
  "utf8_stdout s = (\<not> list_ex is_surrogate s)"

text \<open>A store with one recorded exchange, and requests for it.\<close>

definition example_db :: "conversation list" where
  "example_db =
     [\<lparr>row_model_name = str ''gpt-4o'', row_prompt = str ''What is 2+2?'',
       row_response = str ''The answer is 4''\<rparr>]"

definition example_request :: request where
  "example_request =
     \<lparr>req_messages = [\<lparr>msg_role = str ''user'', msg_content = str ''What is 2+2?''\<rparr>],
      req_model = str ''gpt-4o'', req_debug_mode = None, req_smoothing_factor = Some 1.5\<rparr>"

text \<open>
  The plan after the first iteration of the loop on the two tokens \<open>[97, 98]\<close>, the
  bytes of \<open>ab\<close>, for the model \<open>o1\<close> under \<open>tick_clock\<close>: one token sent, the
  clock read twice.
\<close>

definition plan_after_first_chunk :: "nat plan" where
  "plan_after_first_chunk =
     \<lparr>tokens_sent = 1, last_delay = 0, token_buffer = [], clock_reads = 2,
      elapsed_time = 1 / 100, expected_tokens = 2 / 5\<rparr>"

section \<open>Events and single steps\<close>

lemma yielded_append: "yielded (xs @ ys) = yielded xs @ yielded ys"
  by (induction xs rule: yielded.induct) auto

lemma slept_append: "slept (xs @ ys) = slept xs @ slept ys"
  by (induction xs rule: slept.induct) auto

lemma rate_control_yielded:
  "yielded (fst (rate_control clock start_time output_speed debug_mode smoothing_factor st)) = []"
  by (simp add: rate_control_def Let_def)

lemma rate_control_tokens_sent:
  "tokens_sent (snd (rate_control clock start_time output_speed debug_mode smoothing_factor st))
     = tokens_sent st"
  by (simp add: rate_control_def Let_def)

lemma rate_control_token_buffer:
  "token_buffer (snd (rate_control clock start_time output_speed debug_mode smoothing_factor st))
     = token_buffer st"
  by (simp add: rate_control_def Let_def)

lemma next_token_slept: "slept (fst (next_token enc tokens i st)) = []"
  by (simp add: next_token_def Let_def split: option.splits)

lemma loop_body_unfold:
  assumes "rate_control clock start_time output_speed debug_mode smoothing_factor st = (ev1, st1)"
  shows "loop_body enc clock start_time output_speed debug_mode smoothing_factor tokens i st
     = (case decode_strict enc (token_buffer st @ [tokens ! i]) of
          Some c \<Rightarrow> (ev1 @ [Yield (format_sse_message c)],
                     st1\<lparr>tokens_sent := tokens_sent st + length (token_buffer st) + 1,
                         token_buffer := []\<rparr>)
        | None \<Rightarrow> (ev1, st1\<lparr>token_buffer := token_buffer st @ [tokens ! i]\<rparr>))"
proof -
  have b: "token_buffer st1 = token_buffer st" and t: "tokens_sent st1 = tokens_sent st"
    using rate_control_token_buffer [of clock start_time output_speed debug_mode smoothing_factor st]
      rate_control_tokens_sent [of clock start_time output_speed debug_mode smoothing_factor st]
      assms by simp_all
  show ?thesis
    by (simp add: loop_body_def next_token_def Let_def assms b t split: option.splits)
qed

lemma loop_body_yielded:
  "yielded (fst (loop_body enc clock start_time output_speed debug_mode smoothing_factor tokens i st))
     = (case decode_strict enc (token_buffer st @ [tokens ! i]) of
          Some c \<Rightarrow> [format_sse_message c] | None \<Rightarrow> [])"
proof -
  obtain ev1 st1 where
    r: "rate_control clock start_time output_speed debug_mode smoothing_factor st = (ev1, st1)"
    by (cases "rate_control clock start_time output_speed debug_mode smoothing_factor st")
  have "yielded ev1 = []"
    using rate_control_yielded [of clock start_time output_speed debug_mode smoothing_factor st] r
    by simp
  then show ?thesis
    by (simp add: loop_body_unfold [OF r] yielded_append split: option.splits)
qed

lemma loop_body_token_buffer:
  "token_buffer (snd (loop_body enc clock start_time output_speed debug_mode smoothing_factor tokens i st))
     = (case decode_strict enc (token_buffer st @ [tokens ! i]) of
          Some c \<Rightarrow> [] | None \<Rightarrow> token_buffer st @ [tokens ! i])"
proof -
  obtain ev1 st1 where
    r: "rate_control clock start_time output_speed debug_mode smoothing_factor st = (ev1, st1)"
    by (cases "rate_control clock start_time output_speed debug_mode smoothing_factor st")
  show ?thesis
    by (simp add: loop_body_unfold [OF r] split: option.splits)
qed

lemma loop_body_tokens_sent:
  "tokens_sent (snd (loop_body enc clock start_time output_speed debug_mode smoothing_factor tokens i st))
     = (case decode_strict enc (token_buffer st @ [tokens ! i]) of
          Some c \<Rightarrow> tokens_sent st + length (token_buffer st) + 1 | None \<Rightarrow> tokens_sent st)"
proof -
  obtain ev1 st1 where
    r: "rate_control clock start_time output_speed debug_mode smoothing_factor st = (ev1, st1)"
    by (cases "rate_control clock start_time output_speed debug_mode smoothing_factor st")
  have "tokens_sent st1 = tokens_sent st"
    using rate_control_tokens_sent [of clock start_time output_speed debug_mode smoothing_factor st] r
    by simp
  then show ?thesis
    by (simp add: loop_body_unfold [OF r] split: option.splits)
qed

lemma loop_body_slept:
  "slept (fst (loop_body enc clock start_time output_speed debug_mode smoothing_factor tokens i st))
     = slept (fst (rate_control clock start_time output_speed debug_mode smoothing_factor st))"
proof -
  obtain ev1 st1 where
    r: "rate_control clock start_time output_speed debug_mode smoothing_factor st = (ev1, st1)"
    by (cases "rate_control clock start_time output_speed debug_mode smoothing_factor st")
  show ?thesis
    by (simp add: loop_body_unfold [OF r] r slept_append split: option.splits)
qed

lemma loop_body_last_delay:
  "last_delay (snd (loop_body enc clock start_time output_speed debug_mode smoothing_factor tokens i st))
     = last_delay (snd (rate_control clock start_time output_speed debug_mode smoothing_factor st))"
proof -
  obtain ev1 st1 where
    r: "rate_control clock start_time output_speed debug_mode smoothing_factor st = (ev1, st1)"
    by (cases "rate_control clock start_time output_speed debug_mode smoothing_factor st")
  show ?thesis
    by (simp add: loop_body_unfold [OF r] r split: option.splits)
qed

lemma final_log_yielded:
  "yielded (fst (final_log clock start_time debug_mode total_tokens st)) = []"
  by (simp add: final_log_def Let_def)

lemma final_flush_yielded:
  "yielded (fst (final_flush enc debug_mode st))
     = (if token_buffer st \<noteq> []
        then (case decode_replace enc (token_buffer st) of
                Some c \<Rightarrow> [format_sse_message c] | None \<Rightarrow> [])
        else [])"
  by (simp add: final_flush_def split: option.splits)

lemma final_flush_tokens_sent:
  "tokens_sent st \<le> tokens_sent (snd (final_flush enc debug_mode st))
   \<and> tokens_sent (snd (final_flush enc debug_mode st)) \<le> tokens_sent st + length (token_buffer st)"
  by (simp add: final_flush_def split: option.splits)

lemma rate_control_clock_reads:
  "clock_reads (snd (rate_control clock start_time output_speed debug_mode smoothing_factor st))
     = Suc (clock_reads st)"
  by (simp add: rate_control_def Let_def)

lemma loop_body_clock_reads:
  "clock_reads (snd (loop_body enc clock start_time output_speed debug_mode smoothing_factor tokens i st))
     = Suc (clock_reads st)"
proof -
  obtain ev1 st1 where
    r: "rate_control clock start_time output_speed debug_mode smoothing_factor st = (ev1, st1)"
    by (cases "rate_control clock start_time output_speed debug_mode smoothing_factor st")
  have "clock_reads st1 = Suc (clock_reads st)"
    using rate_control_clock_reads [of clock start_time output_speed debug_mode smoothing_factor st] r
    by simp
  then show ?thesis
    by (simp add: loop_body_unfold [OF r] split: option.splits)
qed

lemma final_flush_slept: "slept (fst (final_flush enc debug_mode st)) = []"
  by (simp add: final_flush_def split: option.splits)

lemma final_log_slept:
  "slept (fst (final_log clock start_time debug_mode total_tokens st)) = []"
  by (simp add: final_log_def Let_def)

lemma get_output_speed_pos: "0 < get_output_speed model_name"
proof -
  have "\<forall>kv \<in> set MODEL_OUTPUT_SPEEDS. 0 < snd kv"
    by (simp add: MODEL_OUTPUT_SPEEDS_def)
  then have t: "\<And>v. map_of MODEL_OUTPUT_SPEEDS model_name = Some v \<Longrightarrow> 0 < v"
    by (metis map_of_SomeD snd_conv)
  have s: "the (map_of MODEL_OUTPUT_SPEEDS (str ''slow'')) = 15"
    by (simp add: MODEL_OUTPUT_SPEEDS_def str_def)
  show ?thesis
    using t by (auto simp: get_output_speed_def Let_def s DEFAULT_OUTPUT_SPEED_def
                     split: option.splits)
qed

lemma o1_speed: "get_output_speed (str ''o1'') = 40"
  by (simp add: get_output_speed_def MODEL_OUTPUT_SPEEDS_def str_def)

section \<open>What the loop yields\<close>

lemma while_loop_yielded:
  "yielded (concat (map fst
      (while_loop enc clock start_time output_speed debug_mode smoothing_factor tokens i st)))
   = map format_sse_message (chunk_texts (decode_strict enc) (token_buffer st) (drop i tokens))"
proof (induction enc clock start_time output_speed debug_mode smoothing_factor tokens i st
        rule: while_loop.induct)
  case (1 enc clock start_time output_speed debug_mode smoothing_factor tokens i st)
  show ?case
  proof (cases "i < length tokens")
    case False
    then show ?thesis by (simp add: while_loop.simps)
  next
    case True
    then have d: "drop i tokens = tokens ! i # drop (Suc i) tokens"
      by (simp add: Cons_nth_drop_Suc)
    show ?thesis
      using True "1.IH" [OF True refl]
      by (subst while_loop.simps)
         (simp add: d Let_def yielded_append loop_body_yielded loop_body_token_buffer
               split: option.splits)
  qed
qed

lemma while_loop_last_buffer:
  "token_buffer (last (st # map snd
      (while_loop enc clock start_time output_speed debug_mode smoothing_factor tokens i st)))
   = leftover (decode_strict enc) (token_buffer st) (drop i tokens)"
proof (induction enc clock start_time output_speed debug_mode smoothing_factor tokens i st
        rule: while_loop.induct)
  case (1 enc clock start_time output_speed debug_mode smoothing_factor tokens i st)
  show ?case
  proof (cases "i < length tokens")
    case False
    then show ?thesis by (simp add: while_loop.simps)
  next
    case True
    then have d: "drop i tokens = tokens ! i # drop (Suc i) tokens"
      by (simp add: Cons_nth_drop_Suc)
    show ?thesis
      using True "1.IH" [OF True refl]
      by (subst while_loop.simps)
         (simp add: d Let_def loop_body_token_buffer split: option.splits)
  qed
qed

lemma generator_yielded:
  assumes "encode enc response_text = Some tokens"
    and "debug_mode \<longrightarrow> stdout_encodes model_name"
  shows "yielded (fst (generate_streaming_response enc clock stdout_encodes response_text
                         model_name debug_mode smoothing_factor))
   = map format_sse_message (chunk_texts (decode_strict enc) [] tokens) @
     (let buf = leftover (decode_strict enc) [] tokens
      in if buf \<noteq> []
         then (case decode_replace enc buf of Some c \<Rightarrow> [format_sse_message c] | None \<Rightarrow> [])
         else [])"
proof -
  define steps where
    "steps = loop_steps enc clock tokens model_name debug_mode smoothing_factor"
  define st where "st = last (initial_plan # map snd steps)"
  have y: "yielded (concat (map fst steps))
        = map format_sse_message (chunk_texts (decode_strict enc) [] tokens)"
    unfolding steps_def loop_steps_def
    by (simp add: while_loop_yielded initial_plan_def)
  have b: "token_buffer st = leftover (decode_strict enc) [] tokens"
    unfolding st_def steps_def loop_steps_def
    using while_loop_last_buffer [of initial_plan enc clock "clock 0" "get_output_speed model_name"
        debug_mode smoothing_factor tokens 0]
    by (simp add: initial_plan_def)
  obtain fe st' where f: "final_flush enc debug_mode st = (fe, st')"
    by (cases "final_flush enc debug_mode st")
  obtain le err where l: "final_log clock (clock 0) debug_mode (length tokens) st' = (le, err)"
    by (cases "final_log clock (clock 0) debug_mode (length tokens) st'")
  have ly: "yielded le = []"
    using final_log_yielded [of clock "clock 0" debug_mode "length tokens" st'] l by simp
  have fy: "yielded fe = yielded (fst (final_flush enc debug_mode st))"
    using f by simp
  have g: "yielded (fst (generate_streaming_response enc clock stdout_encodes response_text
                   model_name debug_mode smoothing_factor))
     = yielded (concat (map fst steps)) @ yielded fe"
    using assms
    by (auto simp: generate_streaming_response_def Let_def yielded_append f l ly
          steps_def [symmetric] st_def [symmetric] simp del: last.simps)
  show ?thesis
    unfolding g y fy final_flush_yielded b by (simp add: Let_def)
qed

lemma chunks_lossless:
  assumes parts: "\<And>xs ys a. dec xs = Some a \<Longrightarrow> dec (xs @ ys) = map_option ((@) a) (dec ys)"
  shows "buf = [] \<or> dec buf = None \<Longrightarrow> dec (buf @ ts) = Some r \<Longrightarrow>
         concat (chunk_texts dec buf ts) = r \<and> leftover dec buf ts = []"
proof (induction ts arbitrary: buf r)
  case Nil
  show ?case
  proof (cases "buf = []")
    case True
    with Nil have e: "dec [] = Some r" by simp
    from parts [OF e, of "[]"] e have "r = r @ r" by simp
    then show ?thesis using True by simp
  next
    case False
    with Nil show ?thesis by simp
  qed
next
  case (Cons t ts)
  show ?case
  proof (cases "dec (buf @ [t])")
    case None
    then show ?thesis using Cons.IH [of "buf @ [t]" r] Cons.prems by simp
  next
    case (Some c)
    from parts [OF Some, of ts] Cons.prems(2)
    obtain r' where r': "dec ts = Some r'" "r = c @ r'" by (auto simp: map_option_case split: option.splits)
    from Cons.IH [of "[]" r'] r' Some show ?thesis by simp
  qed
qed

lemma append_singleton_fun: "(@) [b] = (#) b"
  by (rule ext) simp

lemma utf8_decode_parts:
  "utf8_decode xs = Some a \<Longrightarrow> utf8_decode (xs @ ys) = map_option ((@) a) (utf8_decode ys)"
proof (induction xs arbitrary: a rule: utf8_decode.induct)
  case 1
  then show ?case by (simp add: option.map_ident)
next
  case (2 b)
  then have "b < 128" and a: "a = [b]" by (auto split: if_splits)
  then show ?case
    by (cases ys) (simp_all add: append_singleton_fun)
next
  case (3 b c bs)
  show ?case
  proof (cases "b < 128")
    case True
    with "3.prems" obtain r where r: "utf8_decode (c # bs) = Some r" "a = b # r" by auto
    from "3.IH"(1) [OF True r(1)] True r(2) show ?thesis
      by (simp add: option.map_comp comp_def)
  next
    case False
    with "3.prems" have cond: "194 \<le> b \<and> b < 224 \<and> 128 \<le> c \<and> c < 192"
      by (auto split: if_splits)
    with False "3.prems" obtain r where
      r: "utf8_decode bs = Some r" "a = ((b - 192) * 64 + (c - 128)) # r" by auto
    from "3.IH"(2) [OF False cond r(1)] False cond r(2) show ?thesis
      by (simp add: option.map_comp comp_def)
  qed
qed

lemma byte_tokenizer_parts: "decodes_by_parts byte_tokenizer"
  by (simp add: decodes_by_parts_def byte_tokenizer_def utf8_decode_parts)

section \<open>Lossless replay\<close>

text \<open>
  For a response text that the tokenizer encodes, and decodes back to itself with a
  strict decoder that decodes by parts, the messages the generator yields are the
  framings of the chunk texts of its tokens, and these texts, joined in the order of
  emission, are the response text.
\<close>

lemma replay_of_encoded_text:
  assumes "encode enc response_text = Some tokens"
    and "decode_strict enc tokens = Some response_text"
    and "decodes_by_parts enc"
  shows "yielded (fst (generate_streaming_response enc clock stdout_encodes response_text
                         model_name False smoothing_factor))
           = map format_sse_message (chunk_texts (decode_strict enc) [] tokens)
         \<and> concat (chunk_texts (decode_strict enc) [] tokens) = response_text"
proof -
  have parts: "\<And>xs ys a. decode_strict enc xs = Some a \<Longrightarrow>
      decode_strict enc (xs @ ys) = map_option ((@) a) (decode_strict enc ys)"
    using assms(3) by (simp add: decodes_by_parts_def)
  have "concat (chunk_texts (decode_strict enc) [] tokens) = response_text
        \<and> leftover (decode_strict enc) [] tokens = []"
    using chunks_lossless [of "decode_strict enc" "[]" tokens response_text]
      parts assms(2) by simp
  then show ?thesis
    by (simp add: generator_yielded [OF assms(1)])
qed

text \<open>
  Claim C1. A recorded response can contain the text of a special token. For such a
  text \<open>ENCODER.encode\<close> raises at line 141: the generator ends with
  \<open>ValueError\<close> and has yielded no message, so nothing of the text is replayed.
\<close>

theorem special_token_text_not_replayed:
  assumes "encode enc response_text = None"
  shows "generate_streaming_response enc clock stdout_encodes response_text model_name
           debug_mode smoothing_factor = ([], Some ValueError)"
  using assms by (simp add: generate_streaming_response_def Let_def)

theorem special_token_text_not_replayed_witness:
  "encode byte_tokenizer (str ''The end: <|endoftext|>'') = None
   \<and> generate_streaming_response byte_tokenizer tick_clock utf8_stdout
        (str ''The end: <|endoftext|>'') (str ''gpt-4o'') False (7 / 10) = ([], Some ValueError)
   \<and> yielded (fst (generate_streaming_response byte_tokenizer tick_clock utf8_stdout
        (str ''The end: <|endoftext|>'') (str ''gpt-4o'') False (7 / 10))) = []"
proof -
  have e: "encode byte_tokenizer (str ''The end: <|endoftext|>'') = None"
    by (simp add: byte_tokenizer_def SPECIAL_TOKENS_def str_def)
  show ?thesis
    using e special_token_text_not_replayed [OF e, of tick_clock utf8_stdout "str ''gpt-4o''"
        False "7 / 10"]
    by simp
qed

section \<open>The rate controller\<close>



text \<open>
  Claim C3, as the code has it. A loop step at which \<open>tokens_sent\<close> is not above
  \<open>expected_tokens\<close>, in particular one at most two tokens behind, performs no sleep.
  The band of two tokens lies on the side behind schedule only.
\<close>

theorem no_sleep_unless_ahead:
  assumes "real (tokens_sent st) \<le> (clock (clock_reads st) - start_time) * output_speed"
  shows "slept (fst (loop_body enc clock start_time output_speed debug_mode smoothing_factor
                       tokens i st)) = []"
  using assms
  by (simp add: loop_body_slept rate_control_def Let_def)

theorem no_sleep_unless_ahead_witness:
  "real (tokens_sent (initial_plan :: nat plan))
     \<le> (tick_clock (clock_reads (initial_plan :: nat plan)) - 0) * 40
   \<and> slept (fst (loop_body byte_tokenizer tick_clock 0 40 False (7 / 10) [97, 98] 0
                    initial_plan)) = []"
  using no_sleep_unless_ahead [of "initial_plan :: nat plan" tick_clock 0 40 byte_tokenizer False
      "7 / 10" "[97, 98]" 0]
  by (simp add: initial_plan_def tick_clock_def)

text \<open>
  A step less than two tokens ahead of schedule does sleep: after the first chunk of
  the two tokens \<open>[97, 98]\<close>, one token is sent where 0.8 are expected, and the step
  sleeps 1.5 ms. The plan of this step is the one the generator reaches.
\<close>

theorem dead_band_counterexample:
  "\<bar>real (tokens_sent plan_after_first_chunk)
      - (tick_clock (clock_reads plan_after_first_chunk) - 0) * 40\<bar> \<le> 2
   \<and> slept (fst (loop_body byte_tokenizer tick_clock 0 40 False (7 / 10) [97, 98] 1
                    plan_after_first_chunk)) = [3 / 2000]"
  by (simp add: loop_body_slept rate_control_def Let_def tick_clock_def
        plan_after_first_chunk_def)

lemma dead_band_plan_reached:
  "encode byte_tokenizer (str ''ab'') = Some [97, 98]
   \<and> map snd (loop_steps byte_tokenizer tick_clock [97, 98] (str ''o1'') False (7 / 10)) ! 0
       = plan_after_first_chunk
   \<and> tick_clock 0 = 0 \<and> get_output_speed (str ''o1'') = 40"
proof -
  have "encode byte_tokenizer (str ''ab'') = Some [97, 98]"
    by (simp add: byte_tokenizer_def SPECIAL_TOKENS_def str_def)
  moreover have
    "map snd (loop_steps byte_tokenizer tick_clock [97, 98] (str ''o1'') False (7 / 10)) ! 0
       = plan_after_first_chunk"
    by (simp add: loop_steps_def while_loop.simps loop_body_def rate_control_def next_token_def
          initial_plan_def byte_tokenizer_def tick_clock_def o1_speed Let_def
          plan_after_first_chunk_def)
  ultimately show ?thesis by (simp add: tick_clock_def o1_speed)
qed

section \<open>The session endpoint and the response locator\<close>





lemma example_search:
  "find_matching_response example_db (str ''What is 2+2?'') (str ''gpt-4o'')
     = Inr (str ''The answer is 4'')"
  by (simp add: find_matching_response_def search_conversations_def execute_fails_def
        is_surrogate_def utf8_length_def utf8_char_length_def sql_like_def until_nul_def
        example_db_def str_def sql_lower_def Let_def)

text \<open>
  Claim C4, as the code has it. The endpoint does not check the range of
  \<open>smoothing_factor\<close>: whatever value a request with a first message carries, the
  request fails exactly when the locator fails, and otherwise a streaming response is
  returned whose generator runs with that value.
\<close>

theorem smoothing_factor_not_validated:
  assumes "req_messages data = m # ms"
  shows "chat_completions db enc clock stdout_encodes (data\<lparr>req_smoothing_factor := Some f\<rparr>)
           = (case find_matching_response db (msg_content m) (req_model data) of
                Inl e \<Rightarrow> Inl e
              | Inr response_text \<Rightarrow>
                  Inr \<lparr>body_iterator =
                         generate_streaming_response enc clock stdout_encodes response_text
                           (req_model data)
                           (case req_debug_mode data of None \<Rightarrow> False | Some b \<Rightarrow> b) f,
                       media_type = str ''text/event-stream''\<rparr>)"
  using assms by (simp add: chat_completions_def Let_def)

theorem smoothing_factor_not_validated_witness:
  "req_messages example_request = [\<lparr>msg_role = str ''user'', msg_content = str ''What is 2+2?''\<rparr>]
   \<and> chat_completions example_db byte_tokenizer tick_clock utf8_stdout
         (example_request\<lparr>req_smoothing_factor := Some (- 3)\<rparr>)
       = Inr \<lparr>body_iterator =
                generate_streaming_response byte_tokenizer tick_clock utf8_stdout
                  (str ''The answer is 4'') (str ''gpt-4o'') False (- 3),
              media_type = str ''text/event-stream''\<rparr>"
proof -
  have a: "req_messages example_request
             = [\<lparr>msg_role = str ''user'', msg_content = str ''What is 2+2?''\<rparr>]"
    by (simp add: example_request_def)
  show ?thesis
    using a smoothing_factor_not_validated [OF a, of example_db byte_tokenizer tick_clock
        utf8_stdout "- 3"] example_search
    by (simp add: example_request_def)
qed

text \<open>
  A request with \<open>smoothing_factor = 1.5\<close> for a recorded exchange is answered with a
  streaming response.
\<close>

theorem smoothing_factor_counterexample:
  "req_smoothing_factor example_request = Some (3 / 2)
   \<and> chat_completions example_db byte_tokenizer tick_clock utf8_stdout example_request
       = Inr \<lparr>body_iterator =
                generate_streaming_response byte_tokenizer tick_clock utf8_stdout
                  (str ''The answer is 4'') (str ''gpt-4o'') False (3 / 2),
              media_type = str ''text/event-stream''\<rparr>"
  using example_search by (simp add: chat_completions_def example_request_def Let_def)




section \<open>The wire format\<close>

lemma key_choices: \<open>encode_basestring_ascii (str ''choices'') = str ''"choices"''\<close>
  by (simp add: encode_basestring_ascii_def escape_char_def str_def)
lemma key_delta: \<open>encode_basestring_ascii (str ''delta'') = str ''"delta"''\<close>
  by (simp add: encode_basestring_ascii_def escape_char_def str_def)
lemma key_content: \<open>encode_basestring_ascii (str ''content'') = str ''"content"''\<close>
  by (simp add: encode_basestring_ascii_def escape_char_def str_def)

text \<open>
  Claim C6, as the code has it. Every message is \<open>data: \<close>, then the default
  serialisation of \<open>json.dumps\<close>, which puts a space after each colon, with the chunk
  text as an ASCII-escaped JSON string, then two newlines.
\<close>

theorem sse_wire_format:
  \<open>format_sse_message content =
     str ''data: {"choices": [{"delta": {"content": '' @ encode_basestring_ascii content @
     str ''}}]}'' @ [10, 10]\<close>
  by (simp add: format_sse_message_def sse_data_def key_choices key_delta key_content)
     (simp add: str_def)

theorem sse_wire_format_witness:
  \<open>format_sse_message (str ''Hi'') =
     str ''data: {"choices": [{"delta": {"content": "Hi"}}]}'' @ [10, 10]\<close>
  using sse_wire_format [of "str ''Hi''"]
  by (simp add: encode_basestring_ascii_def escape_char_def str_def)

text \<open>The shape without spaces is not what is emitted.\<close>

theorem sse_wire_format_counterexample:
  \<open>format_sse_message (str ''Hi'') \<noteq>
     str ''data: {"choices":[{"delta":{"content":"Hi"}}]}'' @ [10, 10]\<close>
  by (simp add: format_sse_message_def sse_data_def str_def encode_basestring_ascii_def
        escape_char_def)

section \<open>Requests that match nothing\<close>




section \<open>Progress\<close>

lemma while_loop_progress:
  assumes "tokens_sent st + length (token_buffer st) = i" and "i \<le> length tokens"
  shows "sorted (map tokens_sent (st # map snd
            (while_loop enc clock start_time output_speed debug_mode smoothing_factor tokens i st)))
       \<and> (\<forall>s \<in> set (st # map snd
            (while_loop enc clock start_time output_speed debug_mode smoothing_factor tokens i st)).
            tokens_sent s + length (token_buffer s) \<le> length tokens)"
  using assms
proof (induction enc clock start_time output_speed debug_mode smoothing_factor tokens i st
        rule: while_loop.induct)
  case (1 enc clock start_time output_speed debug_mode smoothing_factor tokens i st)
  show ?case
  proof (cases "i < length tokens")
    case False
    then show ?thesis using "1.prems" by (simp add: while_loop.simps)
  next
    case True
    let ?r = "loop_body enc clock start_time output_speed debug_mode smoothing_factor tokens i st"
    have inv: "tokens_sent (snd ?r) + length (token_buffer (snd ?r)) = Suc i"
      using "1.prems"(1)
      by (simp add: loop_body_tokens_sent loop_body_token_buffer split: option.splits)
    have mono: "tokens_sent st \<le> tokens_sent (snd ?r)"
      by (simp add: loop_body_tokens_sent split: option.splits)
    from "1.IH" [OF True refl inv] True
    have ih: "sorted (map tokens_sent (snd ?r # map snd
                (while_loop enc clock start_time output_speed debug_mode smoothing_factor tokens
                   (Suc i) (snd ?r))))
           \<and> (\<forall>s \<in> set (snd ?r # map snd
                (while_loop enc clock start_time output_speed debug_mode smoothing_factor tokens
                   (Suc i) (snd ?r))).
                tokens_sent s + length (token_buffer s) \<le> length tokens)"
      by simp
    have here: "tokens_sent st + length (token_buffer st) \<le> length tokens"
      using "1.prems" by simp
    have w: "while_loop enc clock start_time output_speed debug_mode smoothing_factor tokens i st
        = ?r # while_loop enc clock start_time output_speed debug_mode smoothing_factor tokens
                 (Suc i) (snd ?r)"
      using True by (subst while_loop.simps) (simp add: Let_def)
    show ?thesis
      unfolding w using ih mono here by auto
  qed
qed

lemma sorted_le_last: "sorted xs \<Longrightarrow> (x::nat) \<in> set xs \<Longrightarrow> x \<le> last xs"
  by (induction xs) auto

text \<open>
  Claim C8. Over the states of the plan while the tokens of a response are streamed,
  \<open>tokens_sent\<close> never decreases and never exceeds \<open>total_tokens\<close>, the number of
  tokens of the response. This holds for every list of tokens, so for the one
  \<open>ENCODER.encode\<close> returns.
\<close>

theorem monotonic_progress:
  "sorted (map tokens_sent
     (plan_states enc clock tokens model_name debug_mode smoothing_factor))
   \<and> list_all (\<lambda>s. tokens_sent s \<le> length tokens)
       (plan_states enc clock tokens model_name debug_mode smoothing_factor)"
proof -
  define after where "after = initial_plan # map snd
     (loop_steps enc clock tokens model_name debug_mode smoothing_factor)"
  define fin where "fin = snd (final_flush enc debug_mode (last after))"
  have p: "sorted (map tokens_sent after)
       \<and> (\<forall>s \<in> set after.
            tokens_sent s + length (token_buffer s) \<le> length tokens)"
    unfolding after_def loop_steps_def
    by (rule while_loop_progress) (simp_all add: initial_plan_def)
  have ne: "after \<noteq> []" by (simp add: after_def)
  then have l: "last after \<in> set after" by (rule last_in_set)
  have le: "\<forall>s \<in> set after. tokens_sent s \<le> tokens_sent (last after)"
  proof
    fix s assume "s \<in> set after"
    then have "tokens_sent s \<in> set (map tokens_sent after)" by simp
    then have "tokens_sent s \<le> last (map tokens_sent after)"
      using p sorted_le_last by blast
    then show "tokens_sent s \<le> tokens_sent (last after)" using ne by (simp add: last_map)
  qed
  have f1: "tokens_sent (last after) \<le> tokens_sent fin"
    and f2: "tokens_sent fin \<le> tokens_sent (last after) + length (token_buffer (last after))"
    using final_flush_tokens_sent [of "last after" enc debug_mode] by (simp_all add: fin_def)
  have f3: "tokens_sent fin \<le> length tokens"
    using f2 p l by (meson le_trans)
  have s: "sorted (map tokens_sent (after @ [fin]))"
    using p le f1 by (auto simp: sorted_append intro: le_trans)
  have b: "\<forall>s \<in> set (after @ [fin]). tokens_sent s \<le> length tokens"
    using p f3 by auto
  have "plan_states enc clock tokens model_name debug_mode smoothing_factor = after @ [fin]"
    by (simp add: plan_states_def Let_def after_def fin_def)
  then show ?thesis
    unfolding list_all_iff using s b by simp
qed

theorem monotonic_progress_witness:
  "encode byte_tokenizer [97, 233, 98] = Some [97, 195, 169, 98]
   \<and> map tokens_sent
       (plan_states byte_tokenizer tick_clock [97, 195, 169, 98] (str ''o1'') False (7 / 10))
     = [0, 1, 1, 3, 4, 4]
   \<and> sorted (map tokens_sent
       (plan_states byte_tokenizer tick_clock [97, 195, 169, 98] (str ''o1'') False (7 / 10)))
   \<and> list_all (\<lambda>s. tokens_sent s \<le> length [97, 195, 169, 98 :: nat])
       (plan_states byte_tokenizer tick_clock [97, 195, 169, 98] (str ''o1'') False (7 / 10))"
proof -
  have "map tokens_sent
          (plan_states byte_tokenizer tick_clock [97, 195, 169, 98] (str ''o1'') False (7 / 10))
        = [0, 1, 1, 3, 4, 4]"
    by (simp add: plan_states_def loop_steps_def while_loop.simps loop_body_def rate_control_def
        next_token_def final_flush_def initial_plan_def byte_tokenizer_def Let_def o1_speed
        tick_clock_def)
  moreover have "encode byte_tokenizer [97, 233, 98] = Some [97, 195, 169, 98]"
    by (simp add: byte_tokenizer_def SPECIAL_TOKENS_def str_def)
  ultimately show ?thesis
    using monotonic_progress [of byte_tokenizer tick_clock "[97, 195, 169, 98]" "str ''o1''"
        False "7 / 10"]
    by blast
qed

section \<open>The sleep of the generator\<close>

lemma two_steps:
  assumes "tokens = t1 # t2 # rest"
  shows "loop_steps enc clock tokens model_name debug_mode smoothing_factor
     = (let r1 = loop_body enc clock (clock 0) (get_output_speed model_name) debug_mode
                   smoothing_factor tokens 0 initial_plan;
            r2 = loop_body enc clock (clock 0) (get_output_speed model_name) debug_mode
                   smoothing_factor tokens 1 (snd r1)
        in r1 # r2 # while_loop enc clock (clock 0) (get_output_speed model_name) debug_mode
                       smoothing_factor tokens 2 (snd r2))"
  unfolding loop_steps_def
  by (subst while_loop.simps, simp add: assms Let_def)
     (subst while_loop.simps, simp add: assms Let_def numeral_2_eq_2)

text \<open>
  Claim C9. The pause of the generator is a call of \<open>time.sleep\<close> made in the body of
  the coroutine, line 170: the event \<open>Sleep\<close>. For every tokenizer that splits the
  response into two tokens or more, the first of which decodes on its own, as
  \<open>cl100k_base\<close> splits \<open>Hello world\<close>, and every clock that starts the second
  iteration before one token is due, the generator makes this call before its second
  chunk, for a positive time when \<open>smoothing_factor\<close> is below one.
\<close>

theorem blocking_sleep_in_stream:
  assumes "encode enc response_text = Some (t1 # t2 # rest)"
    and "decode_strict enc [t1] = Some c1"
    and "clock 0 \<le> clock 1"
    and "(clock 2 - clock 0) * get_output_speed model_name < 1"
    and "smoothing_factor < 1"
  shows "\<exists>d ds.
           slept (fst (generate_streaming_response enc clock stdout_encodes response_text
                         model_name False smoothing_factor)) = d # ds
           \<and> d = (1 - smoothing_factor)
                   * ((1 - (clock 2 - clock 0) * get_output_speed model_name)
                      / get_output_speed model_name)
           \<and> 0 < d"
proof -
  define speed where "speed = get_output_speed model_name"
  define tokens where "tokens = t1 # t2 # rest"
  define r1 where
    "r1 = loop_body enc clock (clock 0) speed False smoothing_factor tokens 0 initial_plan"
  define r2 where
    "r2 = loop_body enc clock (clock 0) speed False smoothing_factor tokens 1 (snd r1)"
  define d where "d = (1 - smoothing_factor) * ((1 - (clock 2 - clock 0) * speed) / speed)"
  have pos: "0 < speed" by (simp add: speed_def get_output_speed_pos)
  have e1: "0 \<le> (clock 1 - clock 0) * speed" using assms(3) pos by simp
  have s1: "slept (fst r1) = []"
    unfolding r1_def using e1
    by (simp add: loop_body_slept rate_control_def Let_def initial_plan_def)
  have t1: "tokens_sent (snd r1) = 1"
    unfolding r1_def using assms(2)
    by (simp add: loop_body_tokens_sent initial_plan_def tokens_def)
  have l1: "last_delay (snd r1) = 0"
    unfolding r1_def using e1
    by (simp add: loop_body_last_delay rate_control_def Let_def initial_plan_def)
  have c1: "clock_reads (snd r1) = 2"
    unfolding r1_def by (simp add: loop_body_clock_reads initial_plan_def)
  have dpos: "0 < d"
    unfolding d_def using assms(4,5) pos by (simp add: speed_def)
  have s2: "slept (fst r2) = [d]"
    unfolding r2_def using assms(4) dpos
    by (simp add: loop_body_slept rate_control_def Let_def t1 l1 c1 d_def speed_def
          max_def)
  define w where
    "w = while_loop enc clock (clock 0) speed False smoothing_factor tokens 2 (snd r2)"
  have steps: "loop_steps enc clock tokens model_name False smoothing_factor = r1 # r2 # w"
    using two_steps [of tokens t1 t2 rest enc clock model_name False smoothing_factor]
    by (simp add: tokens_def Let_def r1_def r2_def w_def speed_def)
  obtain fe st' where f: "final_flush enc False (last (initial_plan # map snd (r1 # r2 # w)))
      = (fe, st')"
    by (cases "final_flush enc False (last (initial_plan # map snd (r1 # r2 # w)))")
  obtain le err where l: "final_log clock (clock 0) False (length tokens) st' = (le, err)"
    by (cases "final_log clock (clock 0) False (length tokens) st'")
  have "slept (fst (generate_streaming_response enc clock stdout_encodes response_text
                      model_name False smoothing_factor))
        = slept (fst r1) @ slept (fst r2) @ slept (concat (map fst w)) @ slept fe @ slept le"
    using assms(1) f l
    by (simp add: generate_streaming_response_def Let_def steps tokens_def [symmetric]
          slept_append)
  then have "slept (fst (generate_streaming_response enc clock stdout_encodes response_text
                      model_name False smoothing_factor))
        = d # (slept (concat (map fst w)) @ slept fe @ slept le)"
    by (simp add: s1 s2)
  then show ?thesis
    using dpos by (auto simp: d_def speed_def)
qed

theorem blocking_sleep_in_stream_witness:
  "encode byte_tokenizer (str ''Hello world'')
     = Some (72 # 101 # [108, 108, 111, 32, 119, 111, 114, 108, 100])
   \<and> decode_strict byte_tokenizer [72] = Some (str ''H'')
   \<and> tick_clock 0 \<le> tick_clock 1
   \<and> (tick_clock 2 - tick_clock 0) * get_output_speed (str ''o1'') < 1
   \<and> (\<exists>d ds.
         slept (fst (generate_streaming_response byte_tokenizer tick_clock utf8_stdout
                       (str ''Hello world'') (str ''o1'') False (7 / 10))) = d # ds
         \<and> d = 3 / 2000)"
proof -
  have a: "encode byte_tokenizer (str ''Hello world'')
     = Some (72 # 101 # [108, 108, 111, 32, 119, 111, 114, 108, 100])"
    by (simp add: byte_tokenizer_def SPECIAL_TOKENS_def str_def)
  have b: "decode_strict byte_tokenizer [72] = Some (str ''H'')"
    by (simp add: byte_tokenizer_def str_def)
  have c: "tick_clock 0 \<le> tick_clock 1" by (simp add: tick_clock_def)
  have d: "(tick_clock 2 - tick_clock 0) * get_output_speed (str ''o1'') < 1"
    by (simp add: tick_clock_def o1_speed)
  have e: "(7 / 10 :: real) < 1" by simp
  have v: "(1 - 7 / 10) * ((1 - (tick_clock 2 - tick_clock 0) * get_output_speed (str ''o1''))
                          / get_output_speed (str ''o1'')) = (3 / 2000 :: real)"
    by (simp add: tick_clock_def o1_speed)
  obtain x ds where
    "slept (fst (generate_streaming_response byte_tokenizer tick_clock utf8_stdout
                   (str ''Hello world'') (str ''o1'') False (7 / 10))) = x # ds"
    and "x = (1 - 7 / 10) * ((1 - (tick_clock 2 - tick_clock 0) * get_output_speed (str ''o1''))
                             / get_output_speed (str ''o1''))"
    using blocking_sleep_in_stream [OF a b c d e, of utf8_stdout] by blast
  then have "\<exists>d ds.
         slept (fst (generate_streaming_response byte_tokenizer tick_clock utf8_stdout
                       (str ''Hello world'') (str ''o1'') False (7 / 10))) = d # ds
         \<and> d = 3 / 2000"
    using v by simp
  then show ?thesis
    using a b c d by blast
qed

section \<open>Debug mode\<close>

text \<open>
  With \<open>debug_mode\<close> and an empty list of tokens, the division of line 213 ends
  the generator with \<open>ZeroDivisionError\<close>; without \<open>debug_mode\<close> it ends normally.
\<close>

lemma debug_empty_response_raises:
  assumes "encode enc response_text = Some []" and "stdout_encodes model_name"
  shows "snd (generate_streaming_response enc clock stdout_encodes response_text model_name
                True smoothing_factor) = Some ZeroDivisionError
         \<and> snd (generate_streaming_response enc clock stdout_encodes response_text model_name
                False smoothing_factor) = None"
  using assms
  by (simp add: generate_streaming_response_def loop_steps_def while_loop.simps
        final_flush_def final_log_def initial_plan_def Let_def)

text \<open>
  Claim C10. With \<open>debug_mode\<close>, the \<open>print\<close> of line 146 writes the model name
  of the request. When the console cannot encode that name, the generator ends there
  with \<open>UnicodeEncodeError\<close> and yields nothing, where without \<open>debug_mode\<close> it
  yields the first chunk of the response and goes on.
\<close>

theorem debug_print_ends_stream:
  assumes "encode enc response_text = Some (t1 # rest)"
    and "decode_strict enc [t1] = Some c1"
    and "\<not> stdout_encodes model_name"
  shows "generate_streaming_response enc clock stdout_encodes response_text model_name True
           smoothing_factor = ([], Some UnicodeEncodeError)
         \<and> (\<exists>ms. yielded (fst (generate_streaming_response enc clock stdout_encodes
                                  response_text model_name False smoothing_factor))
                    = format_sse_message c1 # ms)"
proof -
  have "generate_streaming_response enc clock stdout_encodes response_text model_name True
           smoothing_factor = ([], Some UnicodeEncodeError)"
    using assms(1,3) by (simp add: generate_streaming_response_def Let_def)
  moreover have "\<exists>ms. yielded (fst (generate_streaming_response enc clock stdout_encodes
                                  response_text model_name False smoothing_factor))
                    = format_sse_message c1 # ms"
    using assms(2) by (simp add: generator_yielded [OF assms(1)])
  ultimately show ?thesis by blast
qed

theorem debug_print_ends_stream_witness:
  "encode byte_tokenizer (str ''Hello world'')
     = Some (72 # [101, 108, 108, 111, 32, 119, 111, 114, 108, 100])
   \<and> decode_strict byte_tokenizer [72] = Some (str ''H'')
   \<and> \<not> utf8_stdout (str ''gpt-4o'' @ [55296])
   \<and> generate_streaming_response byte_tokenizer tick_clock utf8_stdout (str ''Hello world'')
        (str ''gpt-4o'' @ [55296]) True (7 / 10) = ([], Some UnicodeEncodeError)
   \<and> (\<exists>ms. yielded (fst (generate_streaming_response byte_tokenizer tick_clock utf8_stdout
                            (str ''Hello world'') (str ''gpt-4o'' @ [55296]) False (7 / 10)))
              = format_sse_message (str ''H'') # ms)"
proof -
  have a: "encode byte_tokenizer (str ''Hello world'')
     = Some (72 # [101, 108, 108, 111, 32, 119, 111, 114, 108, 100])"
    by (simp add: byte_tokenizer_def SPECIAL_TOKENS_def str_def)
  have b: "decode_strict byte_tokenizer [72] = Some (str ''H'')"
    by (simp add: byte_tokenizer_def str_def)
  have c: "\<not> utf8_stdout (str ''gpt-4o'' @ [55296])"
    by (simp add: utf8_stdout_def is_surrogate_def str_def)
  show ?thesis
    using a b c
      debug_print_ends_stream [where enc = byte_tokenizer and stdout_encodes = utf8_stdout
        and model_name = "str ''gpt-4o'' @ [55296]" and clock = tick_clock
        and smoothing_factor = "7 / 10", OF a b c]
    by blast
qed

end
